theory Spec2Isabelle
  imports Main "HOL-Library.Word"
begin

section \<open>device\_ptr: a wrapper around a device pointer\<close>

text \<open>
  The header \<^verbatim>\<open>device_ptr.h\<close> declares the class template \<^verbatim>\<open>device_ptr<T>\<close> and its
  partial specialisation for \<^verbatim>\<open>void\<close>. Both hold one raw pointer, the private member
  \<^verbatim>\<open>ptr\<close>. The embedding below follows the header member by member:
  \<^item> a raw pointer is its address, a 64-bit machine word, and \<^verbatim>\<open>nullptr\<close> is the address 0;
  \<^item> the template parameter \<^verbatim>\<open>T\<close> is an explicit argument wherever a member depends on
    it (\<^verbatim>\<open>sizeof(T)\<close> in pointer arithmetic, \<^verbatim>\<open>std::is_const\<close> and \<^verbatim>\<open>std::is_void\<close> in the
    constraints of the converting members);
  \<^item> members that take their operands by value are functions on values; members that
    write through \<^verbatim>\<open>this\<close> or through a reference work on a store of objects;
  \<^item> what the compiler decides (which converting members are candidates, whether they
    are \<^verbatim>\<open>explicit\<close>, whether a member initialiser is well-formed) is computed by
    functions on a small datatype of element types.
\<close>

subsection \<open>Element types and raw pointers\<close>

text \<open>
  An element type is \<^verbatim>\<open>void\<close> or an object type, given by its name and its \<^verbatim>\<open>sizeof\<close>,
  and is \<^verbatim>\<open>const\<close>-qualified or not (\<^verbatim>\<open>volatile\<close> is left out).
\<close>

datatype unqualified = Void | Object string nat

datatype cv_type = Type (is_const: bool) (unqual: unqualified)

fun is_void :: "cv_type \<Rightarrow> bool" where
  "is_void (Type c Void) = True"
| "is_void (Type c (Object nm sz)) = False"

fun remove_const_t :: "cv_type \<Rightarrow> cv_type" where
  "remove_const_t (Type c u) = Type False u"

text \<open>
  \<^verbatim>\<open>sizeof(T)\<close> of an object type. \<^verbatim>\<open>sizeof(void)\<close> is ill-formed and has no equation; the
  primary template, the only one with arithmetic, is never instantiated with \<^verbatim>\<open>void\<close>.
\<close>

fun sizeof :: "cv_type \<Rightarrow> nat" where
  "sizeof (Type c (Object nm sz)) = sz"

type_synonym addr = "64 word"

text \<open>\<^verbatim>\<open>std::ptrdiff_t\<close>: a 64-bit two's complement integer, read with \<^const>\<open>sint\<close>.\<close>

type_synonym ptrdiff_t = "64 word"

definition nullptr :: addr where
  "nullptr = 0"

text \<open>
  Native pointer arithmetic \<^verbatim>\<open>p + n\<close> and \<^verbatim>\<open>p - n\<close> on a \<^verbatim>\<open>T*\<close>: the address moves by
  \<^verbatim>\<open>n * sizeof(T)\<close> bytes, \<^verbatim>\<open>n\<close> read as a signed number, in a flat 64-bit address
  space. Arithmetic that leaves the pointed-to array, which the language leaves undefined,
  wraps around as the machine does.
\<close>

definition ptr_add :: "cv_type \<Rightarrow> addr \<Rightarrow> ptrdiff_t \<Rightarrow> addr" where
  "ptr_add T p n = p + word_of_int (sint n * int (sizeof T))"

definition ptr_sub :: "cv_type \<Rightarrow> addr \<Rightarrow> ptrdiff_t \<Rightarrow> addr" where
  "ptr_sub T p n = p - word_of_int (sint n * int (sizeof T))"

subsection \<open>The two classes\<close>

text \<open>
  \<^verbatim>\<open>device_ptr<T>\<close> (the primary template, \<^verbatim>\<open>T* ptr\<close>) and \<^verbatim>\<open>device_ptr<void>\<close> (the
  specialisation, \<^verbatim>\<open>void* ptr\<close>).
\<close>

record device_ptr =
  ptr :: addr

record device_ptr_void =
  ptr :: addr

subsection \<open>Constructors from the null token and from a raw pointer\<close>

text \<open>\<^verbatim>\<open>device_ptr(decltype(nullptr)) : ptr{nullptr} {}\<close>\<close>

definition device_ptr_from_nullptr :: device_ptr where
  "device_ptr_from_nullptr = \<lparr>device_ptr.ptr = nullptr\<rparr>"

text \<open>\<^verbatim>\<open>explicit device_ptr(T* ptr) : ptr{ptr} {}\<close>\<close>

definition device_ptr_from_raw :: "addr \<Rightarrow> device_ptr" where
  "device_ptr_from_raw p = \<lparr>device_ptr.ptr = p\<rparr>"

text \<open>The same two constructors of the specialisation.\<close>

definition device_ptr_void_from_nullptr :: device_ptr_void where
  "device_ptr_void_from_nullptr = \<lparr>device_ptr_void.ptr = nullptr\<rparr>"

definition device_ptr_void_from_raw :: "addr \<Rightarrow> device_ptr_void" where
  "device_ptr_void_from_raw p = \<lparr>device_ptr_void.ptr = p\<rparr>"

subsection \<open>The accessor\<close>

text \<open>\<^verbatim>\<open>friend T* get(device_ptr x) { return x.ptr; }\<close>, and the same for the specialisation.\<close>

definition get :: "device_ptr \<Rightarrow> addr" where
  "get x = device_ptr.ptr x"

definition get_void :: "device_ptr_void \<Rightarrow> addr" where
  "get_void x = device_ptr_void.ptr x"

subsection \<open>Comparison operators\<close>

text \<open>
  The six friend operators of the primary template take both operands by value and
  compare the raw pointers; raw pointers compare as addresses.
\<close>

definition op_eq :: "device_ptr \<Rightarrow> device_ptr \<Rightarrow> bool" where
  "op_eq x y = (device_ptr.ptr x = device_ptr.ptr y)"

definition op_ne :: "device_ptr \<Rightarrow> device_ptr \<Rightarrow> bool" where
  "op_ne x y = (device_ptr.ptr x \<noteq> device_ptr.ptr y)"

definition op_lt :: "device_ptr \<Rightarrow> device_ptr \<Rightarrow> bool" where
  "op_lt x y = (device_ptr.ptr x < device_ptr.ptr y)"

definition op_le :: "device_ptr \<Rightarrow> device_ptr \<Rightarrow> bool" where
  "op_le x y = (device_ptr.ptr x \<le> device_ptr.ptr y)"

definition op_gt :: "device_ptr \<Rightarrow> device_ptr \<Rightarrow> bool" where
  "op_gt x y = (device_ptr.ptr x > device_ptr.ptr y)"

definition op_ge :: "device_ptr \<Rightarrow> device_ptr \<Rightarrow> bool" where
  "op_ge x y = (device_ptr.ptr x \<ge> device_ptr.ptr y)"

subsection \<open>Conversions to bool and to an integral type\<close>

text \<open>
  \<^verbatim>\<open>explicit operator bool() const { return ptr; }\<close>: a pointer converts to \<^verbatim>\<open>true\<close> when it
  is not null.
\<close>

definition op_bool :: "device_ptr \<Rightarrow> bool" where
  "op_bool x = (device_ptr.ptr x \<noteq> nullptr)"

definition op_bool_void :: "device_ptr_void \<Rightarrow> bool" where
  "op_bool_void x = (device_ptr_void.ptr x \<noteq> nullptr)"




text \<open>
  What the compiler rejects is a result of the member: no declared member matches, a member
  initialiser needs a conversion that does not exist, or a cast is not allowed.
\<close>

datatype compile_error = No_matching_function | Ill_formed_initializer | Ill_formed_cast




subsection \<open>Arithmetic with an integral offset\<close>

text \<open>
  \<^verbatim>\<open>operator+=\<close> and \<^verbatim>\<open>operator-=\<close> write the member \<^verbatim>\<open>ptr\<close> of the object \<^verbatim>\<open>this\<close> points
  to, so they work on a store of \<^verbatim>\<open>device_ptr\<close> objects. A location is an object of the
  calling code (\<open>Var i\<close>) or the automatic variable \<^verbatim>\<open>tmp\<close> of the running operator
  (\<open>Tmp\<close>). The reference they return is \<^verbatim>\<open>*this\<close>, which the caller reads from the store
  they give back.
\<close>

datatype loc = Var nat | Tmp

type_synonym 'a store = "loc \<Rightarrow> 'a"

text \<open>\<^verbatim>\<open>device_ptr& operator+=(std::ptrdiff_t n) { ptr += n; return *this; }\<close>\<close>

definition op_plus_assign ::
  "cv_type \<Rightarrow> device_ptr store \<Rightarrow> loc \<Rightarrow> ptrdiff_t \<Rightarrow> device_ptr store" where
  "op_plus_assign T s this n =
     s(this := (s this)\<lparr>device_ptr.ptr := ptr_add T (device_ptr.ptr (s this)) n\<rparr>)"

text \<open>
  \<^verbatim>\<open>device_ptr operator+(std::ptrdiff_t n) const { auto tmp = *this; return tmp += n; }\<close>:
  the result is the value of \<^verbatim>\<open>tmp\<close> after the compound assignment, returned with the
  store the call leaves behind.
\<close>

definition op_plus ::
  "cv_type \<Rightarrow> device_ptr store \<Rightarrow> loc \<Rightarrow> ptrdiff_t \<Rightarrow> device_ptr \<times> device_ptr store" where
  "op_plus T s this n =
     (let s1 = s(Tmp := s this);
          s2 = op_plus_assign T s1 Tmp n
      in (s2 Tmp, s2))"

text \<open>\<^verbatim>\<open>device_ptr& operator-=(std::ptrdiff_t n) { ptr -= n; return *this; }\<close>\<close>

definition op_minus_assign ::
  "cv_type \<Rightarrow> device_ptr store \<Rightarrow> loc \<Rightarrow> ptrdiff_t \<Rightarrow> device_ptr store" where
  "op_minus_assign T s this n =
     s(this := (s this)\<lparr>device_ptr.ptr := ptr_sub T (device_ptr.ptr (s this)) n\<rparr>)"

text \<open>\<^verbatim>\<open>device_ptr operator-(std::ptrdiff_t n) const { auto tmp = *this; return tmp -= n; }\<close>\<close>

definition op_minus ::
  "cv_type \<Rightarrow> device_ptr store \<Rightarrow> loc \<Rightarrow> ptrdiff_t \<Rightarrow> device_ptr \<times> device_ptr store" where
  "op_minus T s this n =
     (let s1 = s(Tmp := s this);
          s2 = op_minus_assign T s1 Tmp n
      in (s2 Tmp, s2))"

subsection \<open>Swap\<close>

text \<open>
  \<^verbatim>\<open>friend void swap(device_ptr& x, device_ptr& y) { std::swap(x.ptr, y.ptr); }\<close>, where
  \<^verbatim>\<open>std::swap(a, b)\<close> is \<^verbatim>\<open>tmp = a; a = b; b = tmp;\<close>. The two references are locations of
  the store and may name the same object.
\<close>

definition swap :: "device_ptr store \<Rightarrow> loc \<Rightarrow> loc \<Rightarrow> device_ptr store" where
  "swap s x y =
     (let tmp = device_ptr.ptr (s x);
          s1 = s(x := (s x)\<lparr>device_ptr.ptr := device_ptr.ptr (s y)\<rparr>);
          s2 = s1(y := (s1 y)\<lparr>device_ptr.ptr := tmp\<rparr>)
      in s2)"

definition swap_void :: "device_ptr_void store \<Rightarrow> loc \<Rightarrow> loc \<Rightarrow> device_ptr_void store" where
  "swap_void s x y =
     (let tmp = device_ptr_void.ptr (s x);
          s1 = s(x := (s x)\<lparr>device_ptr_void.ptr := device_ptr_void.ptr (s y)\<rparr>);
          s2 = s1(y := (s1 y)\<lparr>device_ptr_void.ptr := tmp\<rparr>)
      in s2)"

subsection \<open>Which conversions the header declares\<close>

text \<open>
  The members that turn a \<^verbatim>\<open>device_ptr<From>\<close> into a \<^verbatim>\<open>device_ptr<To>\<close> of another
  instantiation are three constructor templates and one conversion function template, all
  of the primary template; the specialisation declares none. Every other constructor takes
  \<^verbatim>\<open>nullptr_t\<close> or a raw pointer and every other conversion function yields an integer, a
  \<^verbatim>\<open>bool\<close> or a raw pointer, and is \<^verbatim>\<open>explicit\<close>.
\<close>

text \<open>
  \<^item> \<open>Ctor_from_nonconst\<close>: \<^verbatim>\<open>device_ptr(device_ptr<std::remove_const_t<T>> dp)\<close>,
    enabled by \<^verbatim>\<open>std::is_const<T>::value\<close>;
  \<^item> \<open>Ctor_from_void\<close>: \<^verbatim>\<open>explicit device_ptr(device_ptr<Void> dp)\<close>, enabled by
    \<^verbatim>\<open>std::is_void<Void>::value\<close>;
  \<^item> \<open>Ctor_from_const_void\<close>: \<^verbatim>\<open>explicit device_ptr(device_ptr<const Void> dp)\<close>, enabled
    by \<^verbatim>\<open>std::is_void<Void>::value\<close>;
  \<^item> \<open>Conv_device_ptr_void\<close>: \<^verbatim>\<open>operator device_ptr<Void>() const\<close>, enabled by
    \<^verbatim>\<open>std::is_void<Void>::value\<close>.
\<close>

datatype member =
    Ctor_from_nonconst
  | Ctor_from_void
  | Ctor_from_const_void
  | Conv_device_ptr_void

datatype specifier = Implicit | Explicit

text \<open>Whether the declaration carries the keyword \<^verbatim>\<open>explicit\<close>.\<close>

fun specifier_of :: "member \<Rightarrow> specifier" where
  "specifier_of Ctor_from_nonconst = Implicit"
| "specifier_of Ctor_from_void = Explicit"
| "specifier_of Ctor_from_const_void = Explicit"
| "specifier_of Conv_device_ptr_void = Implicit"

text \<open>
  Whether the member is a candidate for converting \<^verbatim>\<open>device_ptr<From>\<close> to
  \<^verbatim>\<open>device_ptr<To>\<close>: the class that declares it is the primary template, template
  argument deduction succeeds and the \<^verbatim>\<open>std::enable_if_t\<close> condition holds.
\<close>

fun viable :: "member \<Rightarrow> cv_type \<Rightarrow> cv_type \<Rightarrow> bool" where
  "viable Ctor_from_nonconst From To =
     (\<not> is_void To \<and> is_const To \<and> From = remove_const_t To)"
| "viable Ctor_from_void From To =
     (\<not> is_void To \<and> is_void From)"
| "viable Ctor_from_const_void From To =
     (\<not> is_void To \<and> is_const From \<and> is_void (remove_const_t From))"
| "viable Conv_device_ptr_void From To =
     (\<not> is_void From \<and> is_void To)"

text \<open>
  A pointer to \<open>From\<close> initialises a pointer to \<open>To\<close> without a cast when the conversion is
  a standard pointer conversion: \<open>To\<close> is \<open>From\<close> or \<^verbatim>\<open>void\<close>, up to an added \<^verbatim>\<open>const\<close>.
  Anything else (dropping \<^verbatim>\<open>const\<close>, going from \<^verbatim>\<open>void*\<close> to an object pointer) needs a
  cast, and a member initialiser \<^verbatim>\<open>ptr{e}\<close> without one is ill-formed.
\<close>

definition pointer_conversion :: "cv_type \<Rightarrow> cv_type \<Rightarrow> bool" where
  "pointer_conversion From To =
     ((unqual To = unqual From \<or> unqual To = Void) \<and> (is_const From \<longrightarrow> is_const To))"

text \<open>
  Whether the body of the member compiles when it is instantiated for
  \<^verbatim>\<open>device_ptr<From>\<close> and \<^verbatim>\<open>device_ptr<To>\<close>. The constructors initialise the \<^verbatim>\<open>To*\<close> member
  with \<^verbatim>\<open>ptr{dp.ptr}\<close>, where \<^verbatim>\<open>dp.ptr\<close> is a \<^verbatim>\<open>From*\<close> in the primary template and a
  \<^verbatim>\<open>void*\<close> in the specialisation; the conversion function passes its \<^verbatim>\<open>From*\<close> member to
  the specialisation's \<^verbatim>\<open>explicit device_ptr(void* ptr)\<close>.
\<close>

fun well_formed :: "member \<Rightarrow> cv_type \<Rightarrow> cv_type \<Rightarrow> bool" where
  "well_formed Ctor_from_nonconst From To = pointer_conversion From To"
| "well_formed Ctor_from_void From To = pointer_conversion (Type False Void) To"
| "well_formed Ctor_from_const_void From To = pointer_conversion (Type False Void) To"
| "well_formed Conv_device_ptr_void From To = pointer_conversion From (Type False Void)"

definition candidates :: "cv_type \<Rightarrow> cv_type \<Rightarrow> member list" where
  "candidates From To =
     filter (\<lambda>m. viable m From To)
       [Ctor_from_nonconst, Ctor_from_void, Ctor_from_const_void, Conv_device_ptr_void]"

text \<open>
  Copy-initialisation (\<^verbatim>\<open>device_ptr<To> y = x;\<close>, argument passing) uses the candidates
  that are not \<^verbatim>\<open>explicit\<close>; direct-initialisation and casts use all of them. A
  \<^verbatim>\<open>device_ptr<From>\<close> converts implicitly to a \<^verbatim>\<open>device_ptr<To>\<close> when some candidate is
  not \<^verbatim>\<open>explicit\<close> and its body compiles.
\<close>

definition implicitly_convertible :: "cv_type \<Rightarrow> cv_type \<Rightarrow> bool" where
  "implicitly_convertible From To =
     (filter (\<lambda>m. specifier_of m = Implicit \<and> well_formed m From To) (candidates From To)
        \<noteq> [])"

definition explicitly_convertible :: "cv_type \<Rightarrow> cv_type \<Rightarrow> bool" where
  "explicitly_convertible From To = (candidates From To \<noteq> [])"

subsection \<open>The converting members\<close>

text \<open>
  Each converting member is a function to \<open>compile_error + value\<close>: using a member that is
  not a candidate for its instantiation finds no matching function, and instantiating a
  member whose initialiser is ill-formed is an error as well.
\<close>

definition init_ptr :: "cv_type \<Rightarrow> cv_type \<Rightarrow> addr \<Rightarrow> compile_error + addr" where
  "init_ptr To From a =
     (if pointer_conversion From To then Inr a else Inl Ill_formed_initializer)"

text \<open>
  \<^verbatim>\<open>device_ptr(device_ptr<std::remove_const_t<T>> dp) : ptr{dp.ptr} {}\<close>: a \<^verbatim>\<open>T*\<close> member
  initialised from a \<^verbatim>\<open>std::remove_const_t<T>*\<close>.
\<close>

definition device_ptr_from_nonconst :: "cv_type \<Rightarrow> device_ptr \<Rightarrow> compile_error + device_ptr" where
  "device_ptr_from_nonconst T dp =
     (if viable Ctor_from_nonconst (remove_const_t T) T then
        (case init_ptr T (remove_const_t T) (device_ptr.ptr dp) of
           Inl e \<Rightarrow> Inl e
         | Inr p \<Rightarrow> Inr \<lparr>device_ptr.ptr = p\<rparr>)
      else Inl No_matching_function)"

text \<open>
  \<^verbatim>\<open>explicit device_ptr(device_ptr<Void> dp) : ptr{dp.ptr} {}\<close> and
  \<^verbatim>\<open>explicit device_ptr(device_ptr<const Void> dp) : ptr{dp.ptr} {}\<close>: a \<^verbatim>\<open>T*\<close> member
  initialised from the member of the specialisation, which is a \<^verbatim>\<open>void*\<close> for
  \<^verbatim>\<open>device_ptr<void>\<close> and for \<^verbatim>\<open>device_ptr<const void>\<close> alike.
\<close>

definition device_ptr_from_void :: "cv_type \<Rightarrow> device_ptr_void \<Rightarrow> compile_error + device_ptr" where
  "device_ptr_from_void T dp =
     (if viable Ctor_from_void (Type False Void) T then
        (case init_ptr T (Type False Void) (device_ptr_void.ptr dp) of
           Inl e \<Rightarrow> Inl e
         | Inr p \<Rightarrow> Inr \<lparr>device_ptr.ptr = p\<rparr>)
      else Inl No_matching_function)"

definition device_ptr_from_const_void ::
  "cv_type \<Rightarrow> device_ptr_void \<Rightarrow> compile_error + device_ptr" where
  "device_ptr_from_const_void T dp =
     (if viable Ctor_from_const_void (Type True Void) T then
        (case init_ptr T (Type False Void) (device_ptr_void.ptr dp) of
           Inl e \<Rightarrow> Inl e
         | Inr p \<Rightarrow> Inr \<lparr>device_ptr.ptr = p\<rparr>)
      else Inl No_matching_function)"

text \<open>
  \<^verbatim>\<open>operator device_ptr<Void>() const { return device_ptr<Void>{ptr}; }\<close>: the \<^verbatim>\<open>T*\<close> member
  is the argument of the specialisation's constructor from \<^verbatim>\<open>void*\<close>.
\<close>

definition op_device_ptr_void :: "cv_type \<Rightarrow> device_ptr \<Rightarrow> compile_error + device_ptr_void" where
  "op_device_ptr_void T x =
     (if viable Conv_device_ptr_void T (Type False Void) then
        (case init_ptr (Type False Void) T (device_ptr.ptr x) of
           Inl e \<Rightarrow> Inl e
         | Inr p \<Rightarrow> Inr (device_ptr_void_from_raw p))
      else Inl No_matching_function)"

text \<open>
  The specialisation's \<^verbatim>\<open>template<typename T> explicit operator T*() const
  { return static_cast<T*>(ptr); }\<close>: the cast keeps the address.
\<close>

definition op_raw_void :: "device_ptr_void \<Rightarrow> addr" where
  "op_raw_void x = device_ptr_void.ptr x"

section \<open>Properties\<close>

text \<open>
  C1. For every raw address \<open>p\<close>, wrapping \<open>p\<close> with the explicit constructor and reading
  it back with the accessor \<^verbatim>\<open>get\<close> gives \<open>p\<close>.
\<close>

theorem get_device_ptr_from_raw:
  "get (device_ptr_from_raw p) = p"
  by (simp add: get_def device_ptr_from_raw_def)

text \<open>
  A converting member yields a value exactly when it is a candidate and its body compiles.
\<close>

lemma converting_members_compile:
  "(\<exists>y. device_ptr_from_nonconst T dp = Inr y)
     = (viable Ctor_from_nonconst (remove_const_t T) T
        \<and> well_formed Ctor_from_nonconst (remove_const_t T) T)"
  "(\<exists>y. device_ptr_from_void T dv = Inr y)
     = (viable Ctor_from_void (Type False Void) T
        \<and> well_formed Ctor_from_void (Type False Void) T)"
  "(\<exists>y. device_ptr_from_const_void T dv = Inr y)
     = (viable Ctor_from_const_void (Type True Void) T
        \<and> well_formed Ctor_from_const_void (Type True Void) T)"
  "(\<exists>v. op_device_ptr_void T dp = Inr v)
     = (viable Conv_device_ptr_void T (Type c Void)
        \<and> well_formed Conv_device_ptr_void T (Type c Void))"
  by (simp_all add: device_ptr_from_nonconst_def device_ptr_from_void_def
      device_ptr_from_const_void_def op_device_ptr_void_def init_ptr_def)

text \<open>
  Two facts about the members that recover a typed pointer from an erased one, and the
  path through raw pointers that the header's opening comment prescribes.
\<close>

lemma device_ptr_from_void_object:
  "device_ptr_from_void (Type c (Object nm sz)) dp = Inl Ill_formed_initializer"
  by (simp add: device_ptr_from_void_def init_ptr_def pointer_conversion_def)

lemma device_ptr_from_const_void_object:
  "device_ptr_from_const_void (Type c (Object nm sz)) dp = Inl Ill_formed_initializer"
  by (simp add: device_ptr_from_const_void_def init_ptr_def pointer_conversion_def)

lemma op_device_ptr_void_nonconst:
  "op_device_ptr_void (Type False (Object nm sz)) x = Inr (device_ptr_void_from_raw (get x))"
  by (simp add: op_device_ptr_void_def init_ptr_def pointer_conversion_def get_def)

lemma round_trip_through_raw_pointer:
  "\<exists>v. op_device_ptr_void (Type False (Object nm sz)) d = Inr v
       \<and> op_eq (device_ptr_from_raw (op_raw_void v)) d"
  by (simp add: op_device_ptr_void_nonconst op_eq_def device_ptr_from_raw_def op_raw_void_def
      device_ptr_void_from_raw_def get_def)

text \<open>
  C2. Erasing a \<^verbatim>\<open>device_ptr<T>\<close> to \<^verbatim>\<open>device_ptr<void>\<close> and recovering it with the explicit
  constructor from \<^verbatim>\<open>device_ptr<Void>\<close> should give a pointer equal to the original. For
  \<^verbatim>\<open>T = int\<close> and the address 4096 the erasure gives the erased pointer to 4096, but the
  recovering constructor initialises an \<^verbatim>\<open>int*\<close> from a \<^verbatim>\<open>void*\<close> without a cast, which is
  ill-formed: there is no recovered pointer to compare.
\<close>

theorem device_ptr_from_void_int_ill_formed:
  "op_device_ptr_void (Type False (Object ''int'' 4)) (device_ptr_from_raw 4096)
     = Inr (device_ptr_void_from_raw 4096)
   \<and> device_ptr_from_void (Type False (Object ''int'' 4)) (device_ptr_void_from_raw 4096)
     = Inl Ill_formed_initializer"
  by (simp add: op_device_ptr_void_def device_ptr_from_void_def init_ptr_def
      pointer_conversion_def device_ptr_from_raw_def)




text \<open>
  C4. For all \<open>x\<close> and \<open>y\<close> exactly one of \<open>x < y\<close>, \<open>x == y\<close>, \<open>x > y\<close> holds, and each of
  the six operators decides the matching relation between the wrapped addresses, read as
  unsigned numbers.
\<close>

theorem comparisons_total_order:
  "of_bool (op_lt x y) + of_bool (op_eq x y) + of_bool (op_gt x y) = (1::nat)
   \<and> op_eq x y = (unat (get x) = unat (get y))
   \<and> op_ne x y = (unat (get x) \<noteq> unat (get y))
   \<and> op_lt x y = (unat (get x) < unat (get y))
   \<and> op_le x y = (unat (get x) \<le> unat (get y))
   \<and> op_gt x y = (unat (get x) > unat (get y))
   \<and> op_ge x y = (unat (get x) \<ge> unat (get y))"
proof -
  have "of_bool (op_lt x y) + of_bool (op_eq x y) + of_bool (op_gt x y) = (1::nat)"
    by (cases "device_ptr.ptr x" "device_ptr.ptr y" rule: linorder_cases)
       (auto simp add: op_lt_def op_eq_def op_gt_def)
  moreover have "op_eq x y = (unat (get x) = unat (get y))"
    by (simp add: op_eq_def get_def word_unat_eq_iff)
  moreover have "op_ne x y = (unat (get x) \<noteq> unat (get y))"
    by (simp add: op_ne_def get_def word_unat_eq_iff)
  moreover have "op_lt x y = (unat (get x) < unat (get y))"
    by (simp add: op_lt_def get_def word_less_nat_alt)
  moreover have "op_le x y = (unat (get x) \<le> unat (get y))"
    by (simp add: op_le_def get_def word_le_nat_alt)
  moreover have "op_gt x y = (unat (get x) > unat (get y))"
    by (simp add: op_gt_def get_def word_less_nat_alt)
  moreover have "op_ge x y = (unat (get x) \<ge> unat (get y))"
    by (simp add: op_ge_def get_def word_le_nat_alt)
  ultimately show ?thesis by blast
qed

theorem comparisons_total_order_witness:
  "op_lt (device_ptr_from_raw 8) (device_ptr_from_raw 16)
   \<and> \<not> op_eq (device_ptr_from_raw 8) (device_ptr_from_raw 16)
   \<and> \<not> op_gt (device_ptr_from_raw 8) (device_ptr_from_raw 16)"
  using comparisons_total_order [of "device_ptr_from_raw 8" "device_ptr_from_raw 16"]
  by (simp add: get_def device_ptr_from_raw_def)

text \<open>
  C5. For every object \<open>x\<close> and offset \<open>n\<close>, the address of \<open>x + n\<close> is the address of \<open>x\<close>
  advanced by \<open>n\<close> elements as native pointer arithmetic does, and \<open>(x + n) - n\<close> compares
  equal to \<open>x\<close>. The temporary that holds \<open>x + n\<close> is an object \<open>Var t\<close> of the calling
  code, other than \<open>x\<close>.
\<close>

theorem op_plus_advances_op_minus_undoes:
  assumes "t \<noteq> x"
  shows "get (fst (op_plus T s (Var x) n)) = ptr_add T (get (s (Var x))) n
   \<and> (let (r, s1) = op_plus T s (Var x) n;
           (r2, s2) = op_minus T (s1(Var t := r)) (Var t) n
       in op_eq r2 (s2 (Var x)))"
proof -
  have "get (fst (op_plus T s (Var x) n)) = ptr_add T (get (s (Var x))) n"
    by (simp add: op_plus_def op_plus_assign_def get_def Let_def)
  moreover have "ptr_sub T (ptr_add T p n) n = p" for p
    by (simp add: ptr_sub_def ptr_add_def)
  ultimately show ?thesis using assms
    by (simp add: op_plus_def op_plus_assign_def op_minus_def op_minus_assign_def
        op_eq_def get_def Let_def)
qed

theorem op_plus_advances_op_minus_undoes_witness:
  "(1::nat) \<noteq> 0
   \<and> get (fst (op_plus (Type False (Object ''int'' 4)) (\<lambda>l. device_ptr_from_raw 4096) (Var 0) 3))
       = 4108
   \<and> get (fst (op_plus (Type False (Object ''int'' 4)) (\<lambda>l. device_ptr_from_raw 4096) (Var 0) (- 1)))
       = 4092
   \<and> (let (r, s1) = op_plus (Type False (Object ''int'' 4)) (\<lambda>l. device_ptr_from_raw 4096) (Var 0) 3;
           (r2, s2) = op_minus (Type False (Object ''int'' 4)) (s1(Var 1 := r)) (Var 1) 3
       in op_eq r2 (s2 (Var 0)) \<and> get r2 = 4096)"
  using
    op_plus_advances_op_minus_undoes
      [of 1 0 "Type False (Object ''int'' 4)" "\<lambda>l. device_ptr_from_raw 4096" 3]
    op_plus_advances_op_minus_undoes
      [of 1 0 "Type False (Object ''int'' 4)" "\<lambda>l. device_ptr_from_raw 4096" "- 1"]
  by (simp add: ptr_add_def ptr_sub_def get_def device_ptr_from_raw_def op_plus_def
      op_plus_assign_def op_minus_def op_minus_assign_def op_eq_def Let_def)

text \<open>
  C6. For every object type \<^verbatim>\<open>T\<close>, the conversion from \<^verbatim>\<open>device_ptr<T>\<close> to
  \<^verbatim>\<open>device_ptr<const T>\<close> is implicit and keeps the wrapped address; from
  \<^verbatim>\<open>device_ptr<const T>\<close> to \<^verbatim>\<open>device_ptr<T>\<close> no member is a candidate, explicit or not, and
  the widening constructor itself is not available in \<^verbatim>\<open>device_ptr<T>\<close>.
\<close>

theorem widening_implicit_narrowing_rejected:
  "candidates (Type False (Object nm sz)) (Type True (Object nm sz)) = [Ctor_from_nonconst]
   \<and> implicitly_convertible (Type False (Object nm sz)) (Type True (Object nm sz))
   \<and> (\<exists>y. device_ptr_from_nonconst (Type True (Object nm sz)) x = Inr y \<and> get y = get x)
   \<and> candidates (Type True (Object nm sz)) (Type False (Object nm sz)) = []
   \<and> \<not> explicitly_convertible (Type True (Object nm sz)) (Type False (Object nm sz))
   \<and> device_ptr_from_nonconst (Type False (Object nm sz)) x = Inl No_matching_function"
  by (simp add: implicitly_convertible_def explicitly_convertible_def candidates_def
      device_ptr_from_nonconst_def init_ptr_def pointer_conversion_def get_def)

theorem widening_implicit_narrowing_rejected_witness:
  "device_ptr_from_nonconst (Type True (Object ''int'' 4)) (device_ptr_from_raw 4096)
     = Inr (device_ptr_from_raw 4096)
   \<and> candidates (Type True (Object ''int'' 4)) (Type False (Object ''int'' 4)) = []"
  using widening_implicit_narrowing_rejected [of "''int''" 4 "device_ptr_from_raw 4096"]
  by (auto simp add: get_def device_ptr_from_raw_def)

text \<open>
  C7. A pointer constructed from the null token converts to \<^verbatim>\<open>false\<close>, and a pointer
  constructed from a raw address converts to \<^verbatim>\<open>true\<close> exactly when the address is not
  null; the same holds for the erased pointer.
\<close>

theorem op_bool_null_and_nonnull:
  "\<not> op_bool device_ptr_from_nullptr
   \<and> op_bool (device_ptr_from_raw p) = (p \<noteq> nullptr)
   \<and> \<not> op_bool_void device_ptr_void_from_nullptr
   \<and> op_bool_void (device_ptr_void_from_raw p) = (p \<noteq> nullptr)"
  by (simp add: op_bool_def op_bool_void_def device_ptr_from_nullptr_def device_ptr_from_raw_def
      device_ptr_void_from_nullptr_def device_ptr_void_from_raw_def)

theorem op_bool_null_and_nonnull_witness:
  "\<not> op_bool device_ptr_from_nullptr \<and> op_bool (device_ptr_from_raw 4096)"
  using op_bool_null_and_nonnull [of 4096] by (simp add: nullptr_def)




text \<open>
  C9. After \<open>swap(a, b)\<close> the address of \<open>a\<close> is the address \<open>b\<close> had before and the address
  of \<open>b\<close> is the address \<open>a\<close> had before, for typed and for erased pointers, also when \<open>a\<close>
  and \<open>b\<close> are the same object.
\<close>

theorem swap_exchanges:
  "get (swap s a b a) = get (s b)
   \<and> get (swap s a b b) = get (s a)
   \<and> get_void (swap_void v a b a) = get_void (v b)
   \<and> get_void (swap_void v a b b) = get_void (v a)"
  by (simp add: swap_def swap_void_def get_def get_void_def Let_def)

text \<open>
  C10. Evaluating \<open>x + n\<close> or \<open>x - n\<close> gives a pointer to the moved address and leaves
  every object of the calling code as it was, \<open>x\<close> among them: only the operator's own
  \<^verbatim>\<open>tmp\<close> is written.
\<close>

theorem op_plus_op_minus_frame:
  "snd (op_plus T s (Var x) n) (Var y) = s (Var y)
   \<and> snd (op_minus T s (Var x) n) (Var y) = s (Var y)
   \<and> get (snd (op_plus T s (Var x) n) (Var x)) = get (s (Var x))
   \<and> get (snd (op_minus T s (Var x) n) (Var x)) = get (s (Var x))
   \<and> get (fst (op_plus T s (Var x) n)) = ptr_add T (get (s (Var x))) n
   \<and> get (fst (op_minus T s (Var x) n)) = ptr_sub T (get (s (Var x))) n"
  by (simp add: op_plus_def op_plus_assign_def op_minus_def op_minus_assign_def get_def Let_def)

end
